theory Spec2Isabelle
  imports Complex_Main "HOL-Library.Log_Nat"
begin

section \<open>Font qualifier strings: a shallow embedding of \<open>fontqualifiers.py\<close>\<close>

text \<open>
  The module parses a font string such as \<open>\FHomerton.Medium\ELatin1\M65536 0 0 65536 0 0\<close>
  into five optional properties, merges a second string into an existing object
  (\<open>apply_fields\<close>), renders the properties back into a string (\<open>font_string\<close>) and
  locates a field inside an unparsed string (\<open>find_field\<close>).

  Conventions of the embedding:
  \<^item> a Python \<open>str\<close> is a \<open>string\<close>; characters are 8-bit code points;
  \<^item> a Python \<open>int\<close> is an \<open>int\<close>, a length or offset is a \<open>nat\<close>;
  \<^item> a Python \<open>float\<close> is the rational number the IEEE 754 double denotes, and every
    floating-point operation rounds its exact result to the nearest double (\<open>fl\<close>);
  \<^item> an exception is the \<open>Inl\<close> of a sum type; the \<open>IndexError\<close> that indexing an empty
    string raises is a branch like any other;
  \<^item> the object \<open>self\<close> is a record that is passed in and returned.
\<close>

subsection \<open>Strings\<close>

definition sep :: char where
  "sep = CHR 0x5C"

definition quote :: char where
  "quote = CHR 0x27"

text \<open>\<open>s.split(c)\<close> with an explicit separator: every occurrence splits, empty pieces are
  kept, and the result always has at least one element.\<close>

fun split_on :: "char \<Rightarrow> string \<Rightarrow> string list" where
  "split_on c [] = [[]]"
| "split_on c (x # xs) =
     (if x = c then [] # split_on c xs
      else (case split_on c xs of
              [] \<Rightarrow> [[x]]
            | y # ys \<Rightarrow> (x # y) # ys))"

text \<open>\<open>s.split(c, 1)\<close> for a string that contains \<open>c\<close>: the text before the first \<open>c\<close>
  and the text after it.\<close>

definition split_first :: "char \<Rightarrow> string \<Rightarrow> string \<times> string" where
  "split_first c s = (takeWhile (\<lambda>x. x \<noteq> c) s, drop 1 (dropWhile (\<lambda>x. x \<noteq> c) s))"

text \<open>\<open>s.lstrip(' ')\<close>.\<close>

definition lstrip_spaces :: "string \<Rightarrow> string" where
  "lstrip_spaces s = dropWhile (\<lambda>x. x = CHR '' '') s"

subsection \<open>Integers and their decimal text\<close>

text \<open>\<open>str(n)\<close> for an \<open>int\<close>, as \<open>'{}'.format(n)\<close> and \<open>'%i' % n\<close> produce it.\<close>

definition digit_char :: "nat \<Rightarrow> char" where
  "digit_char d = ''0123456789'' ! d"

fun str_nat :: "nat \<Rightarrow> string" where
  "str_nat n = (if n < 10 then [digit_char n] else str_nat (n div 10) @ [digit_char (n mod 10)])"

declare str_nat.simps [simp del]

definition str_int :: "int \<Rightarrow> string" where
  "str_int i = (if i < 0 then CHR ''-'' # str_nat (nat (- i)) else str_nat (nat i))"

text \<open>
  \<open>int(s)\<close> for a \<open>str\<close> (Python 3): white space around the number is dropped (tab, line
  feed, vertical tab, form feed, carriage return, space, and of the code points above 127
  the next-line and no-break-space characters), one sign may precede the digits, the
  digits are decimal and single underscores may stand between two digits. \<open>None\<close> is the
  \<open>ValueError\<close>. The limit that recent interpreters put on the number of digits is not
  modelled.
\<close>

definition py_isspace :: "char \<Rightarrow> bool" where
  "py_isspace c = (of_char c \<in> {9, 10, 11, 12, 13, 32, 133, 160 :: nat})"

definition py_strip :: "string \<Rightarrow> string" where
  "py_strip s = rev (dropWhile py_isspace (rev (dropWhile py_isspace s)))"

definition is_digit :: "char \<Rightarrow> bool" where
  "is_digit c = (48 \<le> (of_char c :: nat) \<and> (of_char c :: nat) \<le> 57)"

definition digit_val :: "char \<Rightarrow> int" where
  "digit_val c = int (of_char c) - 48"

text \<open>The digits of a number, most significant first, with the value read so far; the flag
  says whether the previous character was a digit (an underscore needs one on both sides).\<close>

fun read_digits :: "int \<Rightarrow> bool \<Rightarrow> string \<Rightarrow> int option" where
  "read_digits acc prev [] = (if prev then Some acc else None)"
| "read_digits acc prev (c # cs) =
     (if is_digit c then read_digits (acc * 10 + digit_val c) True cs
      else if c = CHR ''_'' \<and> prev then
        (case cs of [] \<Rightarrow> None
         | d # ds \<Rightarrow> if is_digit d then read_digits acc False cs else None)
      else None)"

definition py_int :: "string \<Rightarrow> int option" where
  "py_int s =
     (case py_strip s of
        [] \<Rightarrow> None
      | c # cs \<Rightarrow>
          if c = CHR ''-'' then map_option uminus (read_digits 0 False cs)
          else if c = CHR ''+'' then read_digits 0 False cs
          else read_digits 0 False (c # cs))"

subsection \<open>Floating point\<close>

text \<open>
  A finite double is the rational number it denotes. \<open>fl\<close> rounds a rational to the
  nearest number with a 53-bit significand, ties to the even significand, which is what
  IEEE 754 division and multiplication do with their exact results. The exponent range
  is not modelled: every value computed here is zero or has a magnitude between
  \<open>2\<^sup>-\<^sup>1\<^sup>6\<close> and \<open>2\<^sup>4\<^sup>7\<close>, far from overflow and from the subnormal numbers.
\<close>

type_synonym pyfloat = rat

definition pow2 :: "int \<Rightarrow> rat" where
  "pow2 e = (if 0 \<le> e then 2 ^ nat e else 1 / 2 ^ nat (- e))"

text \<open>\<open>\<lfloor>log\<^sub>2 a\<rfloor>\<close> for a positive rational.\<close>

definition ilog2 :: "rat \<Rightarrow> int" where
  "ilog2 a =
     (let (n, d) = quotient_of a;
          k = bitlen n - bitlen d
      in if pow2 k \<le> a then k else k - 1)"

definition round_half_even :: "rat \<Rightarrow> int" where
  "round_half_even t =
     (let f = \<lfloor>t\<rfloor>;
          r = t - of_int f
      in if r < 1 / 2 then f
         else if 1 / 2 < r then f + 1
         else if even f then f else f + 1)"

definition fl :: "rat \<Rightarrow> pyfloat" where
  "fl q =
     (if q = 0 then 0
      else let a = \<bar>q\<bar>;
               u = pow2 (ilog2 a - 52)
           in sgn q * of_int (round_half_even (a / u)) * u)"

text \<open>\<open>value / d\<close> for an \<open>int\<close> and a float constant holding the integer \<open>d\<close>;
  \<open>x * k\<close> for a float and an \<open>int\<close>; \<open>int(x)\<close>, which truncates towards zero.\<close>

definition float_div :: "int \<Rightarrow> int \<Rightarrow> pyfloat" where
  "float_div v d = fl (of_int v / of_int d)"

definition float_mul :: "pyfloat \<Rightarrow> int \<Rightarrow> pyfloat" where
  "float_mul x k = fl (x * of_int k)"

definition int_of_float :: "pyfloat \<Rightarrow> int" where
  "int_of_float x = (if 0 \<le> x then \<lfloor>x\<rfloor> else - \<lfloor>- x\<rfloor>)"

subsection \<open>The parsed object\<close>

text \<open>
  Every property of a \<open>FontQualifiers\<close> object is \<open>None\<close> (\<open>Unset\<close>), the placeholder
  class \<open>FontQualifierEmpty\<close> (\<open>Empty\<close>) or a value.
\<close>

datatype 'a field = Unset | Empty | Value 'a

record qualifiers =
  fontid :: "string field"
  fontlocal :: "(int \<times> string) field"
  encoding :: "string field"
  encodinglocal :: "(int \<times> string) field"
  matrix :: "pyfloat list field"

datatype error =
    FontQualifiersBadStringError string
  | FontQualifiersBadMatrixError string
  | IndexError

text \<open>The state of \<open>self\<close> that \<open>__init__\<close> sets up before it calls \<open>parse\<close>.\<close>

definition new_qualifiers :: qualifiers where
  "new_qualifiers =
     \<lparr>fontid = Unset, fontlocal = Unset, encoding = Unset, encodinglocal = Unset,
      matrix = Unset\<rparr>"

text \<open>\<open>"'%s'" % (s,)\<close>.\<close>

definition quoted :: "string \<Rightarrow> string" where
  "quoted s = quote # s @ [quote]"

subsection \<open>Identifiers\<close>

text \<open>
  \<open>acceptable_identifiers_re = re.compile(r'^[\x21-\x7e]+$')\<close>, used with \<open>search\<close>.
  Without the \<open>MULTILINE\<close> flag \<open>^\<close> matches at the start of the string only, and \<open>$\<close>
  matches at the end of the string and also just before a newline that ends the string.
\<close>

definition acceptable_char :: "char \<Rightarrow> bool" where
  "acceptable_char c = (33 \<le> (of_char c :: nat) \<and> (of_char c :: nat) \<le> 126)"

definition acceptable_identifiers :: "string \<Rightarrow> bool" where
  "acceptable_identifiers s =
     (let body = (if s \<noteq> [] \<and> last s = CHR 0x0A then butlast s else s)
      in body \<noteq> [] \<and> list_all acceptable_char body)"

subsection \<open>\<open>FontQualifiers.parse\<close>\<close>

text \<open>The body of the \<open>else\<close> branch for the qualifier \<open>M\<close>: the six numbers of a matrix.\<close>

definition parse_matrix :: "bool \<Rightarrow> string \<Rightarrow> error + pyfloat list" where
  "parse_matrix need_trailing_space_on_matrix part0 =
     (let part = lstrip_spaces part0;
          matrix_parts0 = split_on (CHR '' '') part;
          trailing = (matrix_parts0 \<noteq> [] \<and> last matrix_parts0 = []);
          matrix_parts = (if trailing then butlast matrix_parts0 else matrix_parts0)
      in if \<not> trailing \<and> need_trailing_space_on_matrix then
           Inl (FontQualifiersBadMatrixError
                  (''Cannot parse font matrix without trailing space in '' @ quoted part))
         else if length matrix_parts \<noteq> 6 then
           Inl (FontQualifiersBadMatrixError
                  (''Cannot parse font matrix with '' @ str_int (int (length matrix_parts))
                   @ '' components in '' @ quoted part))
         else
           (case those (map py_int matrix_parts) of
              None \<Rightarrow>
                Inl (FontQualifiersBadMatrixError
                       (''Cannot parse font matrix values as integers in '' @ quoted part))
            | Some values \<Rightarrow>
                if list_ex (\<lambda>v. v \<ge> 2 ^ 31) values then
                  Inl (FontQualifiersBadMatrixError
                         (''Cannot value too large in font matrix '' @ quoted part))
                else if list_ex (\<lambda>v. v \<le> - (2 ^ 31)) values then
                  Inl (FontQualifiersBadMatrixError
                         (''Cannot value too large in font matrix '' @ quoted part))
                else
                  Inr (map (\<lambda>(index, v). if index < (4::nat) then float_div v 65536
                                           else float_div v 1000)
                         (enumerate 0 values))))"

text \<open>The body of the \<open>else\<close> branch for the qualifiers \<open>f\<close> and \<open>e\<close>: a territory number
  and a name. The two branches differ in the word of their messages only.\<close>

definition parse_local :: "string \<Rightarrow> string \<Rightarrow> error + (int \<times> string)" where
  "parse_local what part =
     (if CHR '' '' \<notin> set part then
        Inl (FontQualifiersBadStringError
               (''Cannot parse font '' @ what @ '' qualifier in '' @ quoted part))
      else
        (let (territory, name) = split_first (CHR '' '') part
         in case py_int territory of
              None \<Rightarrow>
                Inl (FontQualifiersBadStringError
                       (''Cannot parse font '' @ what
                        @ '' qualifier with invalid territory in '' @ quoted part))
            | Some t \<Rightarrow> Inr (t, name)))"

text \<open>
  One turn of the loop \<open>for part in parts[1:]\<close>. The result is the object after the turn
  and the exception the turn raised, if any. \<open>fontid\<close> and \<open>encoding\<close> are assigned before
  the text is checked, as in the source.
\<close>

fun parse_part ::
  "bool \<Rightarrow> bool \<Rightarrow> 'a qualifiers_scheme \<Rightarrow> string \<Rightarrow> 'a qualifiers_scheme \<times> error option"
where
  "parse_part nts allow_empty self [] = (self, Some IndexError)"
| "parse_part nts allow_empty self (qualifier # part) =
     (if qualifier = CHR ''F'' then
        (if part = [] \<and> allow_empty then (self\<lparr>fontid := Empty\<rparr>, None)
         else if \<not> acceptable_identifiers part then
           (self\<lparr>fontid := Value part\<rparr>,
            Some (FontQualifiersBadStringError (''Invalid font name in '' @ quoted part)))
         else (self\<lparr>fontid := Value part\<rparr>, None))
      else if qualifier = CHR ''f'' then
        (if part = [] \<and> allow_empty then (self\<lparr>fontlocal := Empty\<rparr>, None)
         else (case parse_local ''name'' part of
                 Inl e \<Rightarrow> (self, Some e)
               | Inr v \<Rightarrow> (self\<lparr>fontlocal := Value v\<rparr>, None)))
      else if qualifier = CHR ''E'' then
        (if part = [] \<and> allow_empty then (self\<lparr>encoding := Empty\<rparr>, None)
         else if \<not> acceptable_identifiers part then
           (self\<lparr>encoding := Value part\<rparr>,
            Some (FontQualifiersBadStringError
                    (''Invalid encoding name qualifier in '' @ quoted part)))
         else (self\<lparr>encoding := Value part\<rparr>, None))
      else if qualifier = CHR ''e'' then
        (if part = [] \<and> allow_empty then (self\<lparr>encodinglocal := Empty\<rparr>, None)
         else (case parse_local ''encoding'' part of
                 Inl e \<Rightarrow> (self, Some e)
               | Inr v \<Rightarrow> (self\<lparr>encodinglocal := Value v\<rparr>, None)))
      else if qualifier = CHR ''M'' then
        (if part = [] \<and> allow_empty then (self\<lparr>matrix := Empty\<rparr>, None)
         else (case parse_matrix nts part of
                 Inl e \<Rightarrow> (self, Some e)
               | Inr m \<Rightarrow> (self\<lparr>matrix := Value m\<rparr>, None)))
      else
        (self, Some (FontQualifiersBadStringError
                       (''Cannot parse qualifier '' @ quoted [qualifier]))))"

fun parse_parts ::
  "bool \<Rightarrow> bool \<Rightarrow> 'a qualifiers_scheme \<Rightarrow> string list
     \<Rightarrow> 'a qualifiers_scheme \<times> error option"
where
  "parse_parts nts allow_empty self [] = (self, None)"
| "parse_parts nts allow_empty self (part # parts) =
     (case parse_part nts allow_empty self part of
        (self', Some e) \<Rightarrow> (self', Some e)
      | (self', None) \<Rightarrow> parse_parts nts allow_empty self' parts)"

definition parse ::
  "'a qualifiers_scheme \<Rightarrow> string \<Rightarrow> bool \<Rightarrow> bool \<Rightarrow> 'a qualifiers_scheme \<times> error option"
where
  "parse self font_string need_trailing_space_on_matrix allow_empty =
     (if font_string = [] \<and> allow_empty then (self, None)
      else
        (let font_string' =
               (if font_string = [] \<or> hd font_string \<noteq> sep
                then sep # CHR ''F'' # font_string else font_string);
             parts = split_on sep font_string'
         in parse_parts need_trailing_space_on_matrix allow_empty self (tl parts)))"

text \<open>The constructor: an exception of \<open>parse\<close> leaves no object behind.\<close>

definition FontQualifiers :: "string \<Rightarrow> bool \<Rightarrow> bool \<Rightarrow> error + qualifiers" where
  "FontQualifiers font_string need_trailing_space_on_matrix allow_empty =
     (case parse new_qualifiers font_string need_trailing_space_on_matrix allow_empty of
        (self, None) \<Rightarrow> Inr self
      | (self, Some e) \<Rightarrow> Inl e)"

subsection \<open>\<open>FontQualifiers.font_string\<close>\<close>

text \<open>\<open>int(self.matrix[i] * k)\<close> as text.\<close>

definition matrix_value :: "pyfloat \<Rightarrow> int \<Rightarrow> string" where
  "matrix_value x k = str_int (int_of_float (float_mul x k))"

text \<open>The text of the \<open>M\<close> field. Reading \<open>self.matrix[5]\<close> of a shorter list raises
  \<open>IndexError\<close>; longer lists are read up to index 5.\<close>

definition matrix_text :: "pyfloat list \<Rightarrow> error + string" where
  "matrix_text m =
     (if length m < 6 then Inl IndexError
      else Inr (matrix_value (m ! 0) 65536 @ '' '' @ matrix_value (m ! 1) 65536 @ '' ''
                @ matrix_value (m ! 2) 65536 @ '' '' @ matrix_value (m ! 3) 65536 @ '' ''
                @ matrix_value (m ! 4) 1000 @ '' '' @ matrix_value (m ! 5) 1000 @ '' ''))"

definition local_text :: "int \<times> string \<Rightarrow> string" where
  "local_text l = str_int (fst l) @ '' '' @ snd l"

text \<open>The list \<open>fields\<close> before the matrix is looked at.\<close>

definition fields_before_matrix :: "'a qualifiers_scheme \<Rightarrow> (char \<times> string) list" where
  "fields_before_matrix self =
     (case fontid self of Value v \<Rightarrow> [(CHR ''F'', v)] | _ \<Rightarrow> [])
     @ (case fontlocal self of Value l \<Rightarrow> [(CHR ''f'', local_text l)] | _ \<Rightarrow> [])
     @ (case encoding self of Value v \<Rightarrow> [(CHR ''E'', v)] | _ \<Rightarrow> [])
     @ (case encodinglocal self of Value l \<Rightarrow> [(CHR ''e'', local_text l)] | _ \<Rightarrow> [])"

definition join_fields :: "(char \<times> string) list \<Rightarrow> string" where
  "join_fields fs =
     (if length fs = 1 \<and> fst (hd fs) = CHR ''F'' then snd (hd fs)
      else concat (map (\<lambda>f. sep # fst f # snd f) fs))"

definition font_string :: "'a qualifiers_scheme \<Rightarrow> error + string" where
  "font_string self =
     (case matrix self of
        Value m \<Rightarrow>
          (case matrix_text m of
             Inl e \<Rightarrow> Inl e
           | Inr t \<Rightarrow> Inr (join_fields (fields_before_matrix self @ [(CHR ''M'', t)])))
      | _ \<Rightarrow> Inr (join_fields (fields_before_matrix self)))"

subsection \<open>\<open>FontQualifiers.apply_fields\<close>\<close>

definition reduce :: "'a field \<Rightarrow> 'a field \<Rightarrow> 'a field" where
  "reduce current_value new_value =
     (if new_value = Empty then Unset
      else if new_value \<noteq> Unset then new_value
      else current_value)"

text \<open>The object after the call, and the exception the call raised, if any.\<close>

definition apply_fields ::
  "'a qualifiers_scheme \<Rightarrow> string \<Rightarrow> bool \<Rightarrow> 'a qualifiers_scheme \<times> error option"
where
  "apply_fields self second_font_string need_trailing_space_on_matrix =
     (case FontQualifiers second_font_string need_trailing_space_on_matrix True of
        Inl e \<Rightarrow> (self, Some e)
      | Inr apply \<Rightarrow>
          (self\<lparr>fontid := reduce (fontid self) (fontid apply),
                fontlocal := reduce (fontlocal self) (fontlocal apply),
                encoding := reduce (encoding self) (encoding apply),
                encodinglocal := reduce (encodinglocal self) (encodinglocal apply),
                matrix := reduce (matrix self) (matrix apply)\<rparr>,
           None))"

subsection \<open>\<open>FontQualifiers.find_field\<close>\<close>

text \<open>The loop \<open>for part in parts[1:]\<close> with its running offset. In the last line \<open>part\<close>
  is not empty, so the subtraction is exact.\<close>

fun find_loop :: "char \<Rightarrow> nat \<Rightarrow> string list \<Rightarrow> error + nat option" where
  "find_loop wanted offset [] = Inr None"
| "find_loop wanted offset (part # parts) =
     (case part of
        [] \<Rightarrow> Inl IndexError
      | qualifier # rest \<Rightarrow>
          if qualifier = wanted then Inr (Some (offset + 2))
          else find_loop wanted (offset + 2 + (length part - 1)) parts)"

definition find_field :: "string \<Rightarrow> char \<Rightarrow> error + nat option" where
  "find_field s wanted =
     (if s = [] then Inr None
      else if hd s \<noteq> sep \<and> wanted = CHR ''F'' then Inr (Some 0)
      else
        (let parts = split_on sep s
         in find_loop wanted (length (hd parts)) (tl parts)))"

subsection \<open>Notions used in the statements\<close>

text \<open>The object of the examples: \<open>Homerton.Medium\<close> in \<open>Latin1\<close> with a zero matrix, and the
  string it is parsed from.\<close>

definition example_base :: qualifiers where
  "example_base =
     \<lparr>fontid = Value ''Homerton.Medium'', fontlocal = Unset, encoding = Value ''Latin1'',
      encodinglocal = Unset, matrix = Value [0, 0, 0, 0, 0, 0]\<rparr>"

definition example_string :: string where
  "example_string = sep # ''FHomerton.Medium'' @ sep # ''ELatin1'' @ sep # ''M0 0 0 0 0 0''"

text \<open>The merge rule in the words of the specification: an overlay field that is cleared
  unsets the result, one that is set gives its value, one that is unset keeps the base.\<close>

definition merged :: "'a field \<Rightarrow> 'a field \<Rightarrow> 'a field \<Rightarrow> bool" where
  "merged base overlay result =
     ((overlay = Empty \<longrightarrow> result = Unset)
      \<and> (\<forall>v. overlay = Value v \<longrightarrow> result = Value v)
      \<and> (overlay = Unset \<longrightarrow> result = base))"

text \<open>The matrix text in the words of the specification: whether it ends with a space,
  and its components after the leading spaces are stripped and one trailing empty
  component is removed.\<close>

definition has_trailing_space :: "string \<Rightarrow> bool" where
  "has_trailing_space part = (part \<noteq> [] \<and> last part = CHR '' '')"

definition matrix_components :: "string \<Rightarrow> string list" where
  "matrix_components part =
     (let ps = split_on (CHR '' '') (lstrip_spaces part)
      in if last ps = [] then butlast ps else ps)"

definition out_of_range :: "int \<Rightarrow> bool" where
  "out_of_range v = (v \<ge> 2 ^ 31 \<or> v \<le> - (2 ^ 31))"

text \<open>The property of an object that a qualifier character names.\<close>

datatype property =
    Identifier "string field"
  | Local "(int \<times> string) field"
  | Matrix "pyfloat list field"
  | NoProperty

definition property_of :: "char \<Rightarrow> 'a qualifiers_scheme \<Rightarrow> property" where
  "property_of q self =
     (if q = CHR ''F'' then Identifier (fontid self)
      else if q = CHR ''f'' then Local (fontlocal self)
      else if q = CHR ''E'' then Identifier (encoding self)
      else if q = CHR ''e'' then Local (encodinglocal self)
      else if q = CHR ''M'' then Matrix (matrix self)
      else NoProperty)"

text \<open>The pieces that the loop of \<open>parse\<close> visits: a string that does not start with
  the separator is read as if \<open>\F\<close> stood before it; the first piece of the split is
  dropped.\<close>

definition field_segments :: "string \<Rightarrow> string list" where
  "field_segments s =
     tl (split_on sep (if s = [] \<or> hd s \<noteq> sep then sep # CHR ''F'' # s else s))"

section \<open>Evaluation and auxiliary lemmas\<close>

lemma str_nat_numeral:
  "str_nat (numeral k) =
     (if (numeral k :: nat) < 10 then [digit_char (numeral k)]
      else str_nat (numeral k div 10) @ [digit_char (numeral k mod 10)])"
  by (rule str_nat.simps)

lemma str_nat_0: "str_nat 0 = ''0''"
  by (simp add: str_nat.simps digit_char_def)

lemma str_nat_1: "str_nat (Suc 0) = ''1''"
  by (simp add: str_nat.simps digit_char_def)

lemmas str_eval = str_int_def str_nat_numeral str_nat_0 str_nat_1 digit_char_def

lemmas int_eval = py_int_def py_strip_def py_isspace_def is_digit_def digit_val_def

lemmas parse_eval =
  FontQualifiers_def parse_def new_qualifiers_def parse_matrix_def parse_local_def
  acceptable_identifiers_def acceptable_char_def lstrip_spaces_def split_first_def
  quoted_def sep_def quote_def Let_def

lemmas font_string_eval =
  font_string_def matrix_text_def matrix_value_def fields_before_matrix_def
  join_fields_def local_text_def

lemma float_zero: "int_of_float (float_mul (float_div 0 d) k) = 0"
  by (simp add: int_of_float_def float_mul_def float_div_def fl_def)

lemma float_unit: "int_of_float (float_mul (float_div 65536 65536) 65536) = 65536"
  by code_simp

lemma float_128004: "int_of_float (float_mul (float_div 128004 1000) 1000) = 128003"
  by code_simp

lemma float_128003: "int_of_float (float_mul (float_div 128003 1000) 1000) = 128002"
  by code_simp

lemma split_on_not_Nil: "split_on c s \<noteq> []"
  by (induction s) (auto split: list.splits)

lemma split_on_join: "split_on c s = p # ps \<Longrightarrow> s = p @ concat (map ((#) c) ps)"
proof (induction s arbitrary: p ps)
  case Nil
  then show ?case by simp
next
  case (Cons x xs)
  obtain q qs where q: "split_on c xs = q # qs"
    using split_on_not_Nil [of c xs] by (cases "split_on c xs") auto
  from Cons.IH [OF q] have xs: "xs = q @ concat (map ((#) c) qs)" .
  show ?case
  proof (cases "x = c")
    case True
    from Cons.prems True q have "p = []" "ps = q # qs" by simp_all
    with xs True show ?thesis by simp
  next
    case False
    with Cons.prems q have "p = x # q" "ps = qs" by simp_all
    with xs show ?thesis by simp
  qed
qed

lemma split_on_parts_free: "p \<in> set (split_on c s) \<Longrightarrow> c \<notin> set p"
proof (induction s arbitrary: p)
  case Nil
  then show ?case by simp
next
  case (Cons x xs)
  obtain q qs where q: "split_on c xs = q # qs"
    using split_on_not_Nil [of c xs] by (cases "split_on c xs") auto
  show ?case
  proof (cases "x = c")
    case True
    with Cons show ?thesis by auto
  next
    case False
    with Cons.prems q have "p = x # q \<or> p \<in> set qs" by simp
    then show ?thesis
    proof
      assume "p = x # q"
      moreover have "c \<notin> set q" using Cons.IH [of q] q by simp
      ultimately show ?thesis using False by simp
    next
      assume "p \<in> set qs"
      then show ?thesis using Cons.IH [of p] q by simp
    qed
  qed
qed

lemma split_on_free: "c \<notin> set s \<Longrightarrow> split_on c s = [s]"
  by (induction s) auto

lemma last_split_on: "(last (split_on c s) = []) = (s = [] \<or> last s = c)"
proof (induction s)
  case Nil
  then show ?case by simp
next
  case (Cons x xs)
  obtain q qs where q: "split_on c xs = q # qs"
    using split_on_not_Nil [of c xs] by (cases "split_on c xs") auto
  show ?case
  proof (cases "x = c")
    case True
    with Cons q show ?thesis by auto
  next
    case False
    show ?thesis
    proof (cases qs)
      case Nil
      with split_on_join [OF q] have "xs = q" by simp
      with Cons.IH q Nil False show ?thesis by auto
    next
      case (Cons r rs)
      with split_on_join [OF q] have "xs \<noteq> []" by auto
      with Cons.IH q Cons False show ?thesis by auto
    qed
  qed
qed

section \<open>The field locator\<close>

text \<open>
  C3. The specification says that \<open>find_field\<close> returns an offset or not-found for every
  string and never fails. The loop reads \<open>part[0]\<close> of every piece after the first, and
  a piece is empty when the string ends with the separator or has two separators in a
  row: for the string that is one separator, the call raises \<open>IndexError\<close> whatever
  character is wanted.
\<close>

theorem find_field_raises_on_empty_piece: "find_field [sep] wanted = Inl IndexError"
  by (simp add: find_field_def)

lemma find_loop_offset:
  "find_loop w (length pre) ps = Inr (Some off) \<Longrightarrow>
   \<exists>b body rest.
      pre @ concat (map ((#) c) ps) = (b @ [c, w]) @ body @ concat (map ((#) c) rest)
      \<and> off = length (b @ [c, w]) \<and> (w # body) \<in> set ps"
proof (induction ps arbitrary: pre)
  case Nil
  then show ?case by simp
next
  case (Cons part parts)
  show ?case
  proof (cases part)
    case Nil
    with Cons.prems show ?thesis by simp
  next
    case (Cons q body)
    show ?thesis
    proof (cases "q = w")
      case True
      with Cons Cons.prems have "off = length pre + 2" by simp
      with True Cons show ?thesis
        by (intro exI [of _ pre] exI [of _ body] exI [of _ parts]) simp
    next
      case False
      with Cons Cons.prems
      have "find_loop w (length (pre @ c # part)) parts = Inr (Some off)" by simp
      from Cons.IH [OF this] show ?thesis by auto
    qed
  qed
qed

lemma joined_starts_with_sep:
  "concat (map ((#) c) rest) = [] \<or> hd (concat (map ((#) c) rest)) = c"
  by (cases rest) simp_all

lemma find_field_offset:
  assumes "find_field s w = Inr (Some off)"
  shows "\<exists>before body after.
           s = before @ body @ after \<and> off = length before \<and> sep \<notin> set body
           \<and> (after = [] \<or> hd after = sep)
           \<and> ((before = [] \<and> w = CHR ''F'' \<and> hd s \<noteq> sep) \<or> (\<exists>b. before = b @ [sep, w]))"
proof -
  from assms have ne: "s \<noteq> []" by (cases "s = []") (simp_all add: find_field_def)
  show ?thesis
  proof (cases "hd s \<noteq> sep \<and> w = CHR ''F''")
    case True
    with assms ne have off: "off = 0" by (simp add: find_field_def)
    let ?body = "takeWhile (\<lambda>x. x \<noteq> sep) s"
    let ?after = "dropWhile (\<lambda>x. x \<noteq> sep) s"
    have a: "s = [] @ ?body @ ?after" by simp
    have b: "sep \<notin> set ?body" by (auto dest: set_takeWhileD)
    have c: "?after = [] \<or> hd ?after = sep"
      using hd_dropWhile [of "\<lambda>x. x \<noteq> sep" s] by auto
    show ?thesis
      apply (rule exI [of _ "[]"])
      apply (rule exI [of _ ?body])
      apply (rule exI [of _ ?after])
      using a b c off True apply simp
      done
  next
    case False
    obtain p ps where parts: "split_on sep s = p # ps"
      using split_on_not_Nil [of sep s] by (cases "split_on sep s") auto
    from assms ne False
    have "find_loop w (length (hd (split_on sep s))) (tl (split_on sep s)) = Inr (Some off)"
      by (simp add: find_field_def Let_def)
    with parts have "find_loop w (length p) ps = Inr (Some off)" by simp
    from find_loop_offset [OF this, of sep]
    obtain b body rest where
      eq: "p @ concat (map ((#) sep) ps) = (b @ [sep, w]) @ body @ concat (map ((#) sep) rest)"
      and off: "off = length (b @ [sep, w])" and mem: "(w # body) \<in> set ps"
      by blast
    from split_on_join [OF parts] eq
    have s: "s = (b @ [sep, w]) @ body @ concat (map ((#) sep) rest)" by simp
    from mem parts have "(w # body) \<in> set (split_on sep s)" by simp
    from split_on_parts_free [OF this] have free: "sep \<notin> set body" by simp
    show ?thesis
      apply (rule exI [of _ "b @ [sep, w]"])
      apply (rule exI [of _ body])
      apply (rule exI [of _ "concat (map ((#) sep) rest)"])
      using s off free joined_starts_with_sep [of sep rest] apply simp
      done
  qed
qed

text \<open>
  C8. In \<open>\FHomerton.Medium\ELatin1\M0 0 0 0 0 0\<close> the fields \<open>F\<close>, \<open>E\<close> and \<open>M\<close> are found at
  2, 19 and 27 and \<open>X\<close> is not found; in the same string without its leading \<open>\F\<close>, \<open>F\<close>
  is found at 0 and \<open>E\<close> at 17. In general an offset that \<open>find_field\<close> returns is the
  position of the first character of the text of a piece: the string is \<open>before\<close>, the
  text and \<open>after\<close>, the offset is the length of \<open>before\<close>, the text holds no separator and
  runs to the next separator or to the end, and \<open>before\<close> either ends with the separator
  and the wanted character or is empty, for a bare font name.
\<close>

theorem find_field_locates:
  "find_field example_string (CHR ''F'') = Inr (Some 2)
   \<and> find_field example_string (CHR ''E'') = Inr (Some 19)
   \<and> find_field example_string (CHR ''M'') = Inr (Some 27)
   \<and> find_field example_string (CHR ''X'') = Inr None
   \<and> find_field (drop 2 example_string) (CHR ''F'') = Inr (Some 0)
   \<and> find_field (drop 2 example_string) (CHR ''E'') = Inr (Some 17)
   \<and> (find_field s w = Inr (Some off) \<longrightarrow>
        (\<exists>before body after.
           s = before @ body @ after \<and> off = length before \<and> sep \<notin> set body
           \<and> (after = [] \<or> hd after = sep)
           \<and> ((before = [] \<and> w = CHR ''F'' \<and> hd s \<noteq> sep)
                \<or> (\<exists>b. before = b @ [sep, w]))))"
proof (intro conjI impI)
  show "find_field example_string (CHR ''F'') = Inr (Some 2)"
    by (simp add: find_field_def example_string_def sep_def)
  show "find_field example_string (CHR ''E'') = Inr (Some 19)"
    by (simp add: find_field_def example_string_def sep_def)
  show "find_field example_string (CHR ''M'') = Inr (Some 27)"
    by (simp add: find_field_def example_string_def sep_def)
  show "find_field example_string (CHR ''X'') = Inr None"
    by (simp add: find_field_def example_string_def sep_def)
  show "find_field (drop 2 example_string) (CHR ''F'') = Inr (Some 0)"
    by (simp add: find_field_def example_string_def sep_def)
  show "find_field (drop 2 example_string) (CHR ''E'') = Inr (Some 17)"
    by (simp add: find_field_def example_string_def sep_def)
next
  assume "find_field s w = Inr (Some off)"
  then show "\<exists>before body after.
           s = before @ body @ after \<and> off = length before \<and> sep \<notin> set body
           \<and> (after = [] \<or> hd after = sep)
           \<and> ((before = [] \<and> w = CHR ''F'' \<and> hd s \<noteq> sep)
                \<or> (\<exists>b. before = b @ [sep, w]))"
    by (rule find_field_offset)
qed

theorem find_field_locates_witness:
  "find_field example_string (CHR ''E'') = Inr (Some 19)
   \<and> (\<exists>before body after.
        example_string = before @ body @ after \<and> 19 = length before \<and> sep \<notin> set body
        \<and> (after = [] \<or> hd after = sep)
        \<and> ((before = [] \<and> CHR ''E'' = CHR ''F'' \<and> hd example_string \<noteq> sep)
             \<or> (\<exists>b. before = b @ [sep, CHR ''E''])))"
proof -
  have h: "find_field example_string (CHR ''E'') = Inr (Some 19)"
    by (simp add: find_field_def example_string_def sep_def)
  from find_field_locates [of example_string "CHR ''E''" 19] h
  show ?thesis by blast
qed

section \<open>Parsing\<close>

text \<open>
  C4. The specification says that a parse that does not succeed reports \<open>BadString\<close> or
  \<open>BadMatrix\<close> and nothing else. The loop of \<open>parse\<close> reads \<open>part[0]\<close> of an empty piece
  as \<open>find_field\<close> does: the string that is one separator raises \<open>IndexError\<close>, with
  either setting of the two flags, while a piece with an unknown qualifier character
  raises \<open>BadString\<close> with a message that quotes the character.
\<close>

theorem parse_raises_index_error:
  "FontQualifiers [sep] nts ae = Inl IndexError
   \<and> FontQualifiers [sep, CHR ''X''] nts ae
       = Inl (FontQualifiersBadStringError (''Cannot parse qualifier '' @ quoted ''X''))"
  by (simp add: parse_eval)

text \<open>
  C9. The specification says that every character of \<open>fontid\<close> and of \<open>encoding\<close> lies
  between \<open>0x21\<close> and \<open>0x7E\<close>. The pattern ends with \<open>$\<close>, which also matches just before a
  newline that ends the text: \<open>Homerton\<close> followed by a newline parses, and the newline
  (code point 10) is stored in \<open>fontid\<close>.
\<close>

theorem newline_ends_identifier:
  "FontQualifiers (''Homerton'' @ [CHR 0x0A]) nts ae
     = Inr (new_qualifiers\<lparr>fontid := Value (''Homerton'' @ [CHR 0x0A])\<rparr>)
   \<and> \<not> list_all acceptable_char (''Homerton'' @ [CHR 0x0A])"
  by (simp add: parse_eval)

lemma acceptable_plain:
  assumes ne: "s \<noteq> []" and ok: "list_all acceptable_char s"
  shows "acceptable_identifiers s"
proof -
  from ne have "last s \<in> set s" by simp
  with ok have "acceptable_char (last s)" by (simp add: list_all_iff)
  then have "last s \<noteq> CHR 0x0A" by (auto simp: acceptable_char_def)
  with ne ok show ?thesis by (simp add: acceptable_identifiers_def)
qed

text \<open>
  C6, as the specification states it: every string of characters between \<open>0x21\<close> and
  \<open>0x7E\<close> that does not start with the separator parses to a \<open>fontid\<close> equal to the string.
  The separator is itself in that range: inside the string it ends the font name and
  starts the next field, so \<open>a\Eb\<close> parses to the font \<open>a\<close> in the encoding \<open>b\<close>. The empty
  string has no character outside the range either, and is refused.
\<close>

theorem separator_inside_identifier:
  "list_all acceptable_char (''a'' @ sep # ''Eb'')
   \<and> hd (''a'' @ sep # ''Eb'') \<noteq> sep
   \<and> FontQualifiers (''a'' @ sep # ''Eb'') False False
       = Inr (new_qualifiers\<lparr>fontid := Value ''a'', encoding := Value ''b''\<rparr>)
   \<and> Value ''a'' \<noteq> Value (''a'' @ sep # ''Eb'')
   \<and> FontQualifiers [] False False
       = Inl (FontQualifiersBadStringError (''Invalid font name in '' @ quoted []))"
  by (simp add: parse_eval)

text \<open>
  C6, amended: every non-empty string of characters between \<open>0x21\<close> and \<open>0x7E\<close> none of
  which is the separator parses, with either setting of the flags, to an object whose
  \<open>fontid\<close> is the string and whose other properties are unset; and an object whose only
  property with a value is \<open>fontid\<close> renders as that identifier, with no separator or
  marker before it.
\<close>

theorem bare_identifier:
  "(s \<noteq> [] \<longrightarrow> list_all acceptable_char s \<longrightarrow> sep \<notin> set s \<longrightarrow>
      FontQualifiers s nts ae = Inr (new_qualifiers\<lparr>fontid := Value s\<rparr>))
   \<and> (fontid self = Value s \<longrightarrow>
        (\<forall>v. fontlocal self \<noteq> Value v) \<longrightarrow> (\<forall>v. encoding self \<noteq> Value v) \<longrightarrow>
        (\<forall>v. encodinglocal self \<noteq> Value v) \<longrightarrow> (\<forall>v. matrix self \<noteq> Value v) \<longrightarrow>
        font_string self = Inr s)"
proof (intro conjI impI)
  assume ne: "s \<noteq> []" and ok: "list_all acceptable_char s" and free: "sep \<notin> set s"
  from ne free have "hd s \<noteq> sep" by (cases s) auto
  moreover from free have "split_on sep (CHR ''F'' # s) = [CHR ''F'' # s]"
    by (intro split_on_free) (simp add: sep_def)
  ultimately show "FontQualifiers s nts ae = Inr (new_qualifiers\<lparr>fontid := Value s\<rparr>)"
    using ne acceptable_plain [OF ne ok]
    by (simp add: FontQualifiers_def parse_def Let_def)
next
  assume "fontid self = Value s" "\<forall>v. fontlocal self \<noteq> Value v"
    "\<forall>v. encoding self \<noteq> Value v" "\<forall>v. encodinglocal self \<noteq> Value v"
    "\<forall>v. matrix self \<noteq> Value v"
  then show "font_string self = Inr s"
    by (simp add: font_string_def fields_before_matrix_def join_fields_def
             split: field.splits)
qed

theorem bare_identifier_witness:
  "FontQualifiers ''Homerton.Medium'' False False
     = Inr (new_qualifiers\<lparr>fontid := Value ''Homerton.Medium''\<rparr>)
   \<and> font_string (new_qualifiers\<lparr>fontid := Value ''Homerton.Medium''\<rparr>)
     = Inr ''Homerton.Medium''"
proof -
  have a: "''Homerton.Medium'' \<noteq> []" by simp
  have b: "list_all acceptable_char ''Homerton.Medium''" by (simp add: acceptable_char_def)
  have c: "sep \<notin> set ''Homerton.Medium''" by (simp add: sep_def)
  from bare_identifier [of "''Homerton.Medium''" False False
         "new_qualifiers\<lparr>fontid := Value ''Homerton.Medium''\<rparr>"] a b c
  show ?thesis by (simp add: new_qualifiers_def)
qed

subsection \<open>The matrix field\<close>

lemma those_map_None: "(those (map f xs) = None) = (\<exists>x\<in>set xs. f x = None)"
  by (induction xs) (auto split: option.splits)

lemma those_map_Some:
  "those (map f xs) = Some vs \<Longrightarrow> vs = map (\<lambda>x. the (f x)) xs"
  by (induction xs arbitrary: vs) (auto split: option.splits)

lemma lstrip_last:
  "lstrip_spaces part \<noteq> [] \<Longrightarrow> last (lstrip_spaces part) = last part"
  unfolding lstrip_spaces_def
  by (induction part) (auto split: if_splits)

lemma lstrip_Nil: "part \<noteq> [] \<Longrightarrow> lstrip_spaces part = [] \<Longrightarrow> last part = CHR '' ''"
  unfolding lstrip_spaces_def
  by (induction part) (auto split: if_splits)

lemma trailing_piece:
  assumes ne: "part \<noteq> []"
  shows "(last (split_on (CHR '' '') (lstrip_spaces part)) = []) = has_trailing_space part"
proof (cases "lstrip_spaces part = []")
  case True
  with lstrip_Nil [OF ne] ne show ?thesis
    by (simp add: last_split_on has_trailing_space_def)
next
  case False
  with lstrip_last [OF False] ne show ?thesis
    by (simp add: last_split_on has_trailing_space_def)
qed

lemma parse_matrix_alt:
  assumes ne: "part \<noteq> []"
  shows "parse_matrix nts part =
     (if \<not> has_trailing_space part \<and> nts then
        Inl (FontQualifiersBadMatrixError
               (''Cannot parse font matrix without trailing space in ''
                @ quoted (lstrip_spaces part)))
      else if length (matrix_components part) \<noteq> 6 then
        Inl (FontQualifiersBadMatrixError
               (''Cannot parse font matrix with ''
                @ str_int (int (length (matrix_components part)))
                @ '' components in '' @ quoted (lstrip_spaces part)))
      else
        (case those (map py_int (matrix_components part)) of
           None \<Rightarrow>
             Inl (FontQualifiersBadMatrixError
                    (''Cannot parse font matrix values as integers in ''
                     @ quoted (lstrip_spaces part)))
         | Some values \<Rightarrow>
             if list_ex (\<lambda>v. v \<ge> 2 ^ 31) values \<or> list_ex (\<lambda>v. v \<le> - (2 ^ 31)) values then
               Inl (FontQualifiersBadMatrixError
                      (''Cannot value too large in font matrix ''
                       @ quoted (lstrip_spaces part)))
             else
               Inr (map (\<lambda>(index, v). if index < (4::nat) then float_div v 65536
                                        else float_div v 1000)
                      (enumerate 0 values))))"
  unfolding parse_matrix_def matrix_components_def Let_def
  using trailing_piece [OF ne] split_on_not_Nil [of "CHR '' ''" "lstrip_spaces part"]
  by (simp split: option.splits)

lemma parse_part_matrix:
  "part \<noteq> [] \<Longrightarrow>
   snd (parse_part nts ae self (CHR ''M'' # part))
     = (case parse_matrix nts part of Inl e \<Rightarrow> Some e | Inr m \<Rightarrow> None)"
  by (simp split: sum.splits)

lemma matrix_field_cases:
  fixes self :: "'a qualifiers_scheme" and nts ae :: bool and part :: string
  assumes ne: "part \<noteq> []"
  defines "r \<equiv> snd (parse_part nts ae self (CHR ''M'' # part))"
  defines "comps \<equiv> matrix_components part"
  shows "((\<exists>msg. r = Some (FontQualifiersBadMatrixError msg))
            = ((nts \<and> \<not> has_trailing_space part) \<or> length comps \<noteq> 6
               \<or> (\<exists>c\<in>set comps. py_int c = None)
               \<or> (\<exists>c\<in>set comps. \<exists>v. py_int c = Some v \<and> out_of_range v)))
         \<and> (r = None \<or> (\<exists>msg. r = Some (FontQualifiersBadMatrixError msg)))
         \<and> ((\<not> nts \<or> has_trailing_space part) \<longrightarrow> length comps \<noteq> 6 \<longrightarrow>
              r = Some (FontQualifiersBadMatrixError
                          (''Cannot parse font matrix with '' @ str_int (int (length comps))
                           @ '' components in '' @ quoted (lstrip_spaces part))))"
proof -
  have r: "r = (case parse_matrix nts part of Inl e \<Rightarrow> Some e | Inr m \<Rightarrow> None)"
    unfolding r_def by (rule parse_part_matrix [OF ne])
  note alt = parse_matrix_alt [OF ne, of nts, folded comps_def]
  show ?thesis
  proof (cases "nts \<and> \<not> has_trailing_space part")
    case True
    then show ?thesis unfolding r alt by simp
  next
    case A: False
    show ?thesis
    proof (cases "length comps \<noteq> 6")
      case True
      with A show ?thesis unfolding r alt by auto
    next
      case B: False
      show ?thesis
      proof (cases "those (map py_int comps)")
        case None
        then have "\<exists>c\<in>set comps. py_int c = None" by (simp add: those_map_None)
        with A B None show ?thesis unfolding r alt by simp
      next
        case (Some vs)
        then have all: "\<not> (\<exists>c\<in>set comps. py_int c = None)"
          using those_map_None [of py_int comps] by simp
        from those_map_Some [OF Some] have vs: "vs = map (\<lambda>c. the (py_int c)) comps" .
        have big: "(list_ex (\<lambda>v. v \<ge> 2 ^ 31) vs \<or> list_ex (\<lambda>v. v \<le> - (2 ^ 31)) vs)
                    = (\<exists>c\<in>set comps. \<exists>v. py_int c = Some v \<and> out_of_range v)"
          using all unfolding vs list_ex_iff out_of_range_def by force
        show ?thesis
        proof (cases "list_ex (\<lambda>v. v \<ge> 2 ^ 31) vs \<or> list_ex (\<lambda>v. v \<le> - (2 ^ 31)) vs")
          case True
          with A B Some all big show ?thesis unfolding r alt by simp
        next
          case False
          with A B Some all big show ?thesis unfolding r alt by simp
        qed
      qed
    qed
  qed
qed

text \<open>
  C5. For a matrix field with a non-empty text, the turn of the loop raises \<open>BadMatrix\<close>
  exactly when the trailing space is required and the text does not end with a space,
  or the number of components (after the leading spaces are stripped and one trailing
  empty component is removed) is not 6, or a component is not a decimal integer, or a
  component is at least \<open>2\<^sup>3\<^sup>1\<close> or at most \<open>-2\<^sup>3\<^sup>1\<close>; it raises nothing else; and the
  message for a wrong count gives the count. The components \<open>2147483648\<close> and
  \<open>-2147483648\<close> are refused, \<open>2147483647\<close> and \<open>-2147483647\<close> are accepted.
\<close>

theorem matrix_field_failure:
  "(part \<noteq> [] \<longrightarrow>
      ((\<exists>msg. snd (parse_part nts ae self (CHR ''M'' # part))
                = Some (FontQualifiersBadMatrixError msg))
         = ((nts \<and> \<not> has_trailing_space part) \<or> length (matrix_components part) \<noteq> 6
            \<or> (\<exists>c\<in>set (matrix_components part). py_int c = None)
            \<or> (\<exists>c\<in>set (matrix_components part). \<exists>v. py_int c = Some v \<and> out_of_range v)))
      \<and> (snd (parse_part nts ae self (CHR ''M'' # part)) = None
           \<or> (\<exists>msg. snd (parse_part nts ae self (CHR ''M'' # part))
                       = Some (FontQualifiersBadMatrixError msg)))
      \<and> ((\<not> nts \<or> has_trailing_space part) \<longrightarrow> length (matrix_components part) \<noteq> 6 \<longrightarrow>
            snd (parse_part nts ae self (CHR ''M'' # part))
              = Some (FontQualifiersBadMatrixError
                        (''Cannot parse font matrix with ''
                         @ str_int (int (length (matrix_components part)))
                         @ '' components in '' @ quoted (lstrip_spaces part)))))
   \<and> FontQualifiers (sep # ''M2147483648 0 0 -1 0 -1'') False False
       = Inl (FontQualifiersBadMatrixError
                (''Cannot value too large in font matrix ''
                 @ quoted ''2147483648 0 0 -1 0 -1''))
   \<and> FontQualifiers (sep # ''M-2147483648 0 0 -1 0 -1'') False False
       = Inl (FontQualifiersBadMatrixError
                (''Cannot value too large in font matrix ''
                 @ quoted ''-2147483648 0 0 -1 0 -1''))
   \<and> (\<exists>q. FontQualifiers (sep # ''M2147483647 0 0 -1 0 -1'') False False = Inr q)
   \<and> (\<exists>q. FontQualifiers (sep # ''M-2147483647 0 0 -1 0 -1'') False False = Inr q)"
proof (intro conjI)
  show "part \<noteq> [] \<longrightarrow>
      (\<exists>msg. snd (parse_part nts ae self (CHR ''M'' # part))
                = Some (FontQualifiersBadMatrixError msg))
         = ((nts \<and> \<not> has_trailing_space part) \<or> length (matrix_components part) \<noteq> 6
            \<or> (\<exists>c\<in>set (matrix_components part). py_int c = None)
            \<or> (\<exists>c\<in>set (matrix_components part). \<exists>v. py_int c = Some v \<and> out_of_range v))
      \<and> (snd (parse_part nts ae self (CHR ''M'' # part)) = None
           \<or> (\<exists>msg. snd (parse_part nts ae self (CHR ''M'' # part))
                       = Some (FontQualifiersBadMatrixError msg)))
      \<and> ((\<not> nts \<or> has_trailing_space part) \<longrightarrow> length (matrix_components part) \<noteq> 6 \<longrightarrow>
            snd (parse_part nts ae self (CHR ''M'' # part))
              = Some (FontQualifiersBadMatrixError
                        (''Cannot parse font matrix with ''
                         @ str_int (int (length (matrix_components part)))
                         @ '' components in '' @ quoted (lstrip_spaces part))))"
    by (rule impI) (rule matrix_field_cases)
next
  show "FontQualifiers (sep # ''M2147483648 0 0 -1 0 -1'') False False
       = Inl (FontQualifiersBadMatrixError
                (''Cannot value too large in font matrix ''
                 @ quoted ''2147483648 0 0 -1 0 -1''))"
    by (simp add: parse_eval int_eval)
next
  show "FontQualifiers (sep # ''M-2147483648 0 0 -1 0 -1'') False False
       = Inl (FontQualifiersBadMatrixError
                (''Cannot value too large in font matrix ''
                 @ quoted ''-2147483648 0 0 -1 0 -1''))"
    by (simp add: parse_eval int_eval)
next
  show "\<exists>q. FontQualifiers (sep # ''M2147483647 0 0 -1 0 -1'') False False = Inr q"
    by (simp add: parse_eval int_eval)
next
  show "\<exists>q. FontQualifiers (sep # ''M-2147483647 0 0 -1 0 -1'') False False = Inr q"
    by (simp add: parse_eval int_eval)
qed

theorem matrix_field_failure_witness:
  "''0 0 0 0 0'' \<noteq> []
   \<and> matrix_components ''0 0 0 0 0'' = [''0'', ''0'', ''0'', ''0'', ''0'']
   \<and> snd (parse_part False False new_qualifiers (CHR ''M'' # ''0 0 0 0 0''))
       = Some (FontQualifiersBadMatrixError
                 (''Cannot parse font matrix with 5 components in '' @ quoted ''0 0 0 0 0''))"
proof -
  have ne: "''0 0 0 0 0'' \<noteq> []" by simp
  have comps: "matrix_components ''0 0 0 0 0'' = [''0'', ''0'', ''0'', ''0'', ''0'']"
    by (simp add: matrix_components_def lstrip_spaces_def)
  have strip: "lstrip_spaces ''0 0 0 0 0'' = ''0 0 0 0 0''"
    by (simp add: lstrip_spaces_def)
  from matrix_field_failure [of "''0 0 0 0 0''" False False new_qualifiers] ne
  have "(\<not> False \<or> has_trailing_space ''0 0 0 0 0'') \<longrightarrow>
        length (matrix_components ''0 0 0 0 0'') \<noteq> 6 \<longrightarrow>
        snd (parse_part False False new_qualifiers (CHR ''M'' # ''0 0 0 0 0''))
          = Some (FontQualifiersBadMatrixError
                    (''Cannot parse font matrix with ''
                     @ str_int (int (length (matrix_components ''0 0 0 0 0'')))
                     @ '' components in '' @ quoted (lstrip_spaces ''0 0 0 0 0'')))"
    by blast
  then show ?thesis using ne comps strip by (simp add: str_eval)
qed

subsection \<open>Repeated fields\<close>

lemma parse_part_outcome:
  "snd (parse_part nts ae a p) = snd (parse_part nts ae b p)"
  by (cases p) (simp_all split: sum.splits)

lemma parse_part_writes:
  "snd (parse_part nts ae a (q # t)) = None \<Longrightarrow>
   property_of q (fst (parse_part nts ae a (q # t)))
     = property_of q (fst (parse_part nts ae b (q # t)))"
  by (simp add: property_of_def split: sum.splits if_splits)

lemma parse_part_keeps:
  "p = [] \<or> hd p \<noteq> q \<Longrightarrow> property_of q (fst (parse_part nts ae a p)) = property_of q a"
  by (cases p) (auto simp: property_of_def split: sum.splits)

lemma parse_parts_append:
  "parse_parts nts ae a (xs @ ys) =
     (case parse_parts nts ae a xs of
        (a', Some e) \<Rightarrow> (a', Some e)
      | (a', None) \<Rightarrow> parse_parts nts ae a' ys)"
  by (induction xs arbitrary: a) (auto split: prod.splits option.splits)

lemma parse_parts_succeeds:
  "\<forall>p\<in>set ps. snd (parse_part nts ae b p) = None \<Longrightarrow> snd (parse_parts nts ae a ps) = None"
proof (induction ps arbitrary: a)
  case Nil
  then show ?case by simp
next
  case (Cons p ps)
  from Cons.prems have "snd (parse_part nts ae b p) = None" by simp
  then have "snd (parse_part nts ae a p) = None"
    using parse_part_outcome [of nts ae a p b] by simp
  then obtain a' where "parse_part nts ae a p = (a', None)"
    by (cases "parse_part nts ae a p") auto
  with Cons show ?case by simp
qed

lemma parse_parts_keeps:
  "\<forall>p\<in>set ps. p = [] \<or> hd p \<noteq> q \<Longrightarrow>
   property_of q (fst (parse_parts nts ae a ps)) = property_of q a"
proof (induction ps arbitrary: a)
  case Nil
  then show ?case by simp
next
  case (Cons p ps)
  obtain a' r where step: "parse_part nts ae a p = (a', r)"
    by (cases "parse_part nts ae a p") auto
  from Cons.prems have "p = [] \<or> hd p \<noteq> q" by simp
  from parse_part_keeps [OF this, of nts ae a] step
  have keep: "property_of q a' = property_of q a" by simp
  show ?case
  proof (cases r)
    case None
    with step Cons keep show ?thesis by simp
  next
    case (Some e)
    with step keep show ?thesis by simp
  qed
qed

lemma last_occurrence:
  assumes ok: "\<forall>p\<in>set (before @ (q # t) # after). snd (parse_part nts ae b p) = None"
    and later: "\<forall>p\<in>set after. hd p \<noteq> q"
  shows "snd (parse_parts nts ae a (before @ (q # t) # after)) = None
         \<and> property_of q (fst (parse_parts nts ae a (before @ (q # t) # after)))
             = property_of q (fst (parse_part nts ae b (q # t)))"
proof -
  from ok have "snd (parse_parts nts ae a before) = None"
    by (intro parse_parts_succeeds [of _ nts ae b]) simp
  then obtain a1 where a1: "parse_parts nts ae a before = (a1, None)"
    by (cases "parse_parts nts ae a before") auto
  from ok have okq: "snd (parse_part nts ae b (q # t)) = None" by simp
  then have "snd (parse_part nts ae a1 (q # t)) = None"
    using parse_part_outcome [of nts ae a1 "q # t" b] by simp
  then obtain a2 where a2: "parse_part nts ae a1 (q # t) = (a2, None)"
    by (cases "parse_part nts ae a1 (q # t)") auto
  have whole: "parse_parts nts ae a (before @ (q # t) # after) = parse_parts nts ae a2 after"
    using a1 a2 by (simp add: parse_parts_append)
  from ok have "snd (parse_parts nts ae a2 after) = None"
    by (intro parse_parts_succeeds [of _ nts ae b]) simp
  moreover from later have "property_of q (fst (parse_parts nts ae a2 after)) = property_of q a2"
    by (intro parse_parts_keeps) simp
  moreover have "property_of q a2 = property_of q (fst (parse_part nts ae b (q # t)))"
    using parse_part_writes [of nts ae a1 q t b] a2 by simp
  ultimately show ?thesis using whole by simp
qed

lemma parse_segments:
  "\<not> (s = [] \<and> ae) \<Longrightarrow> parse self s nts ae = parse_parts nts ae self (field_segments s)"
  by (auto simp: parse_def field_segments_def Let_def)

text \<open>
  C10, as the specification states it: when a qualifier character stands in several
  pieces and each of those pieces parses on its own, the parse succeeds and keeps the
  value of the last of them. The other pieces are parsed too: in \<open>\Fa\Fb\X\<close> both \<open>F\<close>
  pieces parse on their own, and the parse raises \<open>BadString\<close> at the unknown qualifier.
\<close>

theorem repeated_field_with_bad_piece:
  "field_segments (sep # ''Fa'' @ sep # ''Fb'' @ [sep, CHR ''X'']) = [''Fa'', ''Fb'', ''X'']
   \<and> snd (parse_part False False new_qualifiers ''Fa'') = None
   \<and> snd (parse_part False False new_qualifiers ''Fb'') = None
   \<and> FontQualifiers (sep # ''Fa'' @ sep # ''Fb'' @ [sep, CHR ''X'']) False False
       = Inl (FontQualifiersBadStringError (''Cannot parse qualifier '' @ quoted ''X''))"
  by (simp add: field_segments_def parse_eval)

text \<open>
  C10, amended: when every piece of a string parses on its own, the parse of the string
  succeeds, and the property that a qualifier character names holds what the last piece
  with that character gives when it is parsed alone: a later field of the same kind
  overwrites an earlier one.
\<close>

theorem last_field_wins:
  "\<not> (s = [] \<and> ae) \<longrightarrow>
   field_segments s = before @ (q # t) # after \<longrightarrow>
   (\<forall>p\<in>set after. hd p \<noteq> q) \<longrightarrow>
   (\<forall>p\<in>set (field_segments s). snd (parse_part nts ae new_qualifiers p) = None) \<longrightarrow>
   snd (parse self s nts ae) = None
   \<and> property_of q (fst (parse self s nts ae))
       = property_of q (fst (parse_part nts ae new_qualifiers (q # t)))"
proof (intro impI)
  assume ne: "\<not> (s = [] \<and> ae)"
    and segs: "field_segments s = before @ (q # t) # after"
    and later: "\<forall>p\<in>set after. hd p \<noteq> q"
    and ok: "\<forall>p\<in>set (field_segments s). snd (parse_part nts ae new_qualifiers p) = None"
  from ok segs
  have "\<forall>p\<in>set (before @ (q # t) # after). snd (parse_part nts ae new_qualifiers p) = None"
    by simp
  from last_occurrence [OF this later, of self]
  show "snd (parse self s nts ae) = None
   \<and> property_of q (fst (parse self s nts ae))
       = property_of q (fst (parse_part nts ae new_qualifiers (q # t)))"
    unfolding parse_segments [OF ne] segs .
qed

theorem last_field_wins_witness:
  "field_segments (sep # ''Fa'' @ sep # ''Fc'' @ sep # ''Eb'') = [''Fa''] @ ''Fc'' # [''Eb'']
   \<and> snd (parse new_qualifiers (sep # ''Fa'' @ sep # ''Fc'' @ sep # ''Eb'') False False) = None
   \<and> property_of (CHR ''F'')
        (fst (parse new_qualifiers (sep # ''Fa'' @ sep # ''Fc'' @ sep # ''Eb'') False False))
       = Identifier (Value ''c'')"
proof -
  let ?s = "sep # ''Fa'' @ sep # ''Fc'' @ sep # ''Eb''"
  have a: "\<not> (?s = [] \<and> False)" by simp
  have b: "field_segments ?s = [''Fa''] @ (CHR ''F'' # ''c'') # [''Eb'']"
    by (simp add: field_segments_def sep_def)
  have c: "\<forall>p\<in>set [''Eb'']. hd p \<noteq> CHR ''F''" by simp
  have d: "\<forall>p\<in>set (field_segments ?s). snd (parse_part False False new_qualifiers p) = None"
    unfolding b by (simp add: acceptable_identifiers_def acceptable_char_def)
  from last_field_wins [of ?s False "[''Fa'']" "CHR ''F''" "''c''" "[''Eb'']" False new_qualifiers]
    a b c d
  show ?thesis
    by (simp add: property_of_def acceptable_identifiers_def acceptable_char_def)
qed

section \<open>Rendering\<close>

lemma parse_drifting:
  "FontQualifiers (sep # ''FHomerton.Medium'' @ sep # ''ELatin1''
                   @ sep # ''M65536 0 0 65536 128004 0'') False False
   = Inr \<lparr>fontid = Value ''Homerton.Medium'', fontlocal = Unset,
          encoding = Value ''Latin1'', encodinglocal = Unset,
          matrix = Value [float_div 65536 65536, float_div 0 65536, float_div 0 65536,
                          float_div 65536 65536, float_div 128004 1000, float_div 0 1000]\<rparr>"
  by (simp add: parse_eval int_eval)

lemma parse_drifted:
  "FontQualifiers (sep # ''FHomerton.Medium'' @ sep # ''ELatin1''
                   @ sep # ''M65536 0 0 65536 128003 0 '') False False
   = Inr \<lparr>fontid = Value ''Homerton.Medium'', fontlocal = Unset,
          encoding = Value ''Latin1'', encodinglocal = Unset,
          matrix = Value [float_div 65536 65536, float_div 0 65536, float_div 0 65536,
                          float_div 65536 65536, float_div 128003 1000, float_div 0 1000]\<rparr>"
  by (simp add: parse_eval int_eval)

text \<open>
  C2. The specification says that rendering is idempotent after the first rendering:
  render, parse and render again give the first rendering. The offsets of the matrix are
  stored as \<open>value / 1000.0\<close> and rendered as \<open>int(x * 1000)\<close>, which truncates; the
  product can fall just below the integer. For the offset \<open>128004\<close> the first rendering
  has \<open>128003\<close>, and the rendering of its parse has \<open>128002\<close>. Both renderings end the
  matrix with a space.
\<close>

theorem rendering_drifts:
  "\<exists>q q'. FontQualifiers (sep # ''FHomerton.Medium'' @ sep # ''ELatin1''
                           @ sep # ''M65536 0 0 65536 128004 0'') False False = Inr q
     \<and> font_string q = Inr (sep # ''FHomerton.Medium'' @ sep # ''ELatin1''
                             @ sep # ''M65536 0 0 65536 128003 0 '')
     \<and> FontQualifiers (sep # ''FHomerton.Medium'' @ sep # ''ELatin1''
                        @ sep # ''M65536 0 0 65536 128003 0 '') False False = Inr q'
     \<and> font_string q' = Inr (sep # ''FHomerton.Medium'' @ sep # ''ELatin1''
                              @ sep # ''M65536 0 0 65536 128002 0 '')"
  unfolding parse_drifting parse_drifted
  by (simp add: font_string_eval float_zero float_unit float_128004 float_128003 str_eval)

section \<open>Merging\<close>

lemma reduce_merged: "merged b ov (reduce b ov)"
  by (cases ov) (simp_all add: merged_def reduce_def)

text \<open>
  C1. When the second string parses (with empty fields allowed), \<open>apply_fields\<close> raises
  nothing and sets each of the five properties on its own: a property the second string
  clears becomes unset, one it sets takes the new value, one it does not mention keeps
  its value. For the object with \<open>Homerton.Medium\<close>, \<open>Latin1\<close> and a zero matrix: the empty
  string changes nothing, \<open>Selwyn\<close> replaces only \<open>fontid\<close>, \<open>\F\<close> unsets only \<open>fontid\<close>, and
  \<open>\F\E\<close> unsets \<open>fontid\<close> and \<open>encoding\<close>.
\<close>

theorem apply_fields_merges:
  "(\<forall>ov. FontQualifiers S nts True = Inr ov \<longrightarrow>
      (\<exists>B'. apply_fields B S nts = (B', None)
         \<and> merged (fontid B) (fontid ov) (fontid B')
         \<and> merged (fontlocal B) (fontlocal ov) (fontlocal B')
         \<and> merged (encoding B) (encoding ov) (encoding B')
         \<and> merged (encodinglocal B) (encodinglocal ov) (encodinglocal B')
         \<and> merged (matrix B) (matrix ov) (matrix B')))
   \<and> apply_fields example_base [] nts = (example_base, None)
   \<and> apply_fields example_base ''Selwyn'' nts
       = (example_base\<lparr>fontid := Value ''Selwyn''\<rparr>, None)
   \<and> apply_fields example_base [sep, CHR ''F''] nts
       = (example_base\<lparr>fontid := Unset\<rparr>, None)
   \<and> apply_fields example_base [sep, CHR ''F'', sep, CHR ''E''] nts
       = (example_base\<lparr>fontid := Unset, encoding := Unset\<rparr>, None)"
proof (intro conjI allI impI)
  fix ov
  assume "FontQualifiers S nts True = Inr ov"
  then show "\<exists>B'. apply_fields B S nts = (B', None)
         \<and> merged (fontid B) (fontid ov) (fontid B')
         \<and> merged (fontlocal B) (fontlocal ov) (fontlocal B')
         \<and> merged (encoding B) (encoding ov) (encoding B')
         \<and> merged (encodinglocal B) (encodinglocal ov) (encodinglocal B')
         \<and> merged (matrix B) (matrix ov) (matrix B')"
    by (simp add: apply_fields_def reduce_merged)
next
  show "apply_fields example_base [] nts = (example_base, None)"
    by (simp add: apply_fields_def parse_eval reduce_def example_base_def)
next
  show "apply_fields example_base ''Selwyn'' nts
       = (example_base\<lparr>fontid := Value ''Selwyn''\<rparr>, None)"
    by (simp add: apply_fields_def parse_eval reduce_def example_base_def)
next
  show "apply_fields example_base [sep, CHR ''F''] nts
       = (example_base\<lparr>fontid := Unset\<rparr>, None)"
    by (simp add: apply_fields_def parse_eval reduce_def example_base_def)
next
  show "apply_fields example_base [sep, CHR ''F'', sep, CHR ''E''] nts
       = (example_base\<lparr>fontid := Unset, encoding := Unset\<rparr>, None)"
    by (simp add: apply_fields_def parse_eval reduce_def example_base_def)
qed

theorem apply_fields_merges_witness:
  "FontQualifiers (sep # ''ELatin2'' @ [sep, CHR ''M'']) False True
     = Inr (new_qualifiers\<lparr>encoding := Value ''Latin2'', matrix := Empty\<rparr>)
   \<and> (\<exists>B'. apply_fields example_base (sep # ''ELatin2'' @ [sep, CHR ''M'']) False
              = (B', None)
         \<and> fontid B' = Value ''Homerton.Medium''
         \<and> encoding B' = Value ''Latin2''
         \<and> matrix B' = Unset)"
proof -
  have h: "FontQualifiers (sep # ''ELatin2'' @ [sep, CHR ''M'']) False True
     = Inr (new_qualifiers\<lparr>encoding := Value ''Latin2'', matrix := Empty\<rparr>)"
    by (simp add: parse_eval)
  from apply_fields_merges [of "sep # ''ELatin2'' @ [sep, CHR ''M'']" False example_base] h
  obtain B' where
    "apply_fields example_base (sep # ''ELatin2'' @ [sep, CHR ''M'']) False = (B', None)"
    and "merged (fontid example_base) Unset (fontid B')"
    and "merged (encoding example_base) (Value ''Latin2'') (encoding B')"
    and "merged (matrix example_base) Empty (matrix B')"
    by (auto simp: new_qualifiers_def)
  then show ?thesis using h by (auto simp: merged_def example_base_def)
qed

text \<open>
  C7. When the parse of the second string inside \<open>apply_fields\<close> raises, the object is
  left as it was and the exception is the one of the parse; when it succeeds, nothing of
  the object other than its five properties changes.
\<close>

theorem apply_fields_all_or_nothing:
  "(\<forall>e. FontQualifiers s nts True = Inl e \<longrightarrow> apply_fields self s nts = (self, Some e))
   \<and> (\<forall>e. snd (apply_fields self s nts) = Some e \<longrightarrow>
          fst (apply_fields self s nts) = self \<and> FontQualifiers s nts True = Inl e)
   \<and> qualifiers.more (fst (apply_fields self s nts)) = qualifiers.more self"
  by (simp add: apply_fields_def split: sum.splits)

theorem apply_fields_all_or_nothing_witness:
  "FontQualifiers ''Homerton Medium'' False True
     = Inl (FontQualifiersBadStringError (''Invalid font name in '' @ quoted ''Homerton Medium''))
   \<and> apply_fields example_base ''Homerton Medium'' False
     = (example_base,
        Some (FontQualifiersBadStringError
                (''Invalid font name in '' @ quoted ''Homerton Medium'')))"
proof -
  have h: "FontQualifiers ''Homerton Medium'' False True
     = Inl (FontQualifiersBadStringError (''Invalid font name in '' @ quoted ''Homerton Medium''))"
    by (simp add: parse_eval)
  from apply_fields_all_or_nothing [of "''Homerton Medium''" False example_base] h
  show ?thesis by blast
qed

end
